theory Spec2Isabelle
  imports Main "HOL-Library.Word"
begin

section \<open>The emulator as floss/decoding\_manager.py uses it\<close>

text \<open>
  The module drives a vivisect emulator through one function. The emulator, the
  calling convention and the driver are collaborators that live outside the module;
  what the module reads and writes of them is kept here as a record: the stack counter,
  the program counter, the pointer size, a byte memory with the list of its maps, the
  taint table (\<open>getVivTaint\<close>), the opcode decoder (\<open>parseOpcode\<close>) and the workspace's
  caller table (\<open>emu.vw.getCallers\<close>). Python integers are unbounded, so addresses and
  sizes are \<open>int\<close>.
\<close>

type_synonym byte = "8 word"

record operand =
  oper_imm :: int

record opcode =
  op_va :: int
  op_size :: int
  op_mnem :: string
  op_opers :: "operand list"

record emulator =
  stack_counter :: int
  program_counter :: int
  imem_psize :: nat
  memory_bytes :: "int \<Rightarrow> byte"
  memory_maps :: "(int \<times> nat \<times> string \<times> nat) list"
  viv_taint :: "int \<Rightarrow> (int \<times> string \<times> string) option"
  opcodes :: "int \<Rightarrow> opcode"
  vw_getCallers :: "int \<Rightarrow> int list"

text \<open>The exceptions the module raises, catches or lets pass; all are subclasses of
  Python's \<open>Exception\<close>.\<close>

datatype exn =
    InstructionRangeExceededError
  | InvalidInstruction
  | UnsupportedInstruction
  | BreakpointHit
  | StopEmulation
  | UnsupportedFunction
  | KeyError
  | ValueError
  | Exception string

text \<open>What a hook's \<open>hook\<close> method returns when it does not raise: \<open>True\<close>, or
  \<open>None\<close> when the method falls off its end.\<close>

datatype retval = RTrue | RNone

subsection \<open>Engine primitives\<close>

text \<open>Modelled from the spec: the Engine's \<open>getStackPointer\<close>/\<open>setStackPointer\<close> and
  \<open>getProgramCounter\<close>/\<open>setProgramCounter\<close> (section 6); vivisect's register file is
  not part of the repository. The registers hold the integer they are given.\<close>

definition getStackCounter :: "emulator \<Rightarrow> int" where
  "getStackCounter emu = stack_counter emu"

definition setStackCounter :: "emulator \<Rightarrow> int \<Rightarrow> emulator" where
  "setStackCounter emu v = emu\<lparr>stack_counter := v\<rparr>"

definition getProgramCounter :: "emulator \<Rightarrow> int" where
  "getProgramCounter emu = program_counter emu"

definition setProgramCounter :: "emulator \<Rightarrow> int \<Rightarrow> emulator" where
  "setProgramCounter emu v = emu\<lparr>program_counter := v\<rparr>"

definition getPointerSize :: "emulator \<Rightarrow> int" where
  "getPointerSize emu = int (imem_psize emu)"

text \<open>Modelled from the spec: the Engine's \<open>writeMemory(addr, bytes)\<close> and
  \<open>mapRegion(addr, size, protection, label)\<close> (section 6); vivisect's memory object is
  not part of the repository. Memory is one flat byte store; a map is recorded with
  its base, protection, label and length, and holds the bytes it is created with.\<close>

definition writeMemory :: "emulator \<Rightarrow> int \<Rightarrow> byte list \<Rightarrow> emulator" where
  "writeMemory emu va bs =
     emu\<lparr>memory_bytes :=
       (\<lambda>a. if va \<le> a \<and> a < va + int (length bs) then bs ! nat (a - va)
            else memory_bytes emu a)\<rparr>"

definition addMemoryMap :: "emulator \<Rightarrow> int \<Rightarrow> nat \<Rightarrow> string \<Rightarrow> byte list \<Rightarrow> emulator" where
  "addMemoryMap emu va perms fname bs =
     (writeMemory emu va bs)\<lparr>memory_maps := memory_maps emu @ [(va, perms, fname, length bs)]\<rparr>"

definition MM_RWX :: nat where
  "MM_RWX = 7"

text \<open>Modelled from the spec: the Engine's \<open>readMemory(addr, len)\<close> (section 6), read
  as vivisect's \<open>readMemoryFormat(va, "<P")\<close>: a little-endian unsigned pointer.\<close>

definition readPointer :: "emulator \<Rightarrow> int \<Rightarrow> int" where
  "readPointer emu va =
     foldr (\<lambda>i acc. int (unat (memory_bytes emu (va + int i))) + 256 * acc)
       [0..<imem_psize emu] 0"

text \<open>\<open>getStackValue(offset)\<close> of viv\_utils' monitor and driver: the pointer stored
  at the stack counter plus \<open>offset\<close>.\<close>

definition getStackValue :: "emulator \<Rightarrow> int \<Rightarrow> int" where
  "getStackValue emu offset = readPointer emu (getStackCounter emu + offset)"

text \<open>The calling convention's \<open>execCallReturn(emu, value, argc)\<close> is a parameter of
  every hook: it completes the call with the given return value.\<close>

record callconv =
  execCallReturn :: "emulator \<Rightarrow> int \<Rightarrow> nat \<Rightarrow> emulator"

section \<open>The allocation shims\<close>

text \<open>\<open>round(i, size)\<close>, lines 156 to 166. Python's \<open>%\<close> takes the sign of the
  divisor, as \<open>mod\<close> on \<open>int\<close> does. The one caller passes \<open>size = 0x1000\<close>;
  \<open>size = 0\<close> would raise ZeroDivisionError in Python.\<close>

definition round_py :: "int \<Rightarrow> int \<Rightarrow> int" where
  "round_py i sz = (if i mod sz = 0 then i else i + (i - (i mod sz)))"

definition MAX_ALLOCATION_SIZE :: int where
  "MAX_ALLOCATION_SIZE = 10 * 1024 * 1024"

text \<open>The first two statements of \<open>\_allocate\_mem\<close>: the size that is granted.\<close>

definition granted_size :: "int \<Rightarrow> int" where
  "granted_size size0 =
     (let size1 = round_py size0 0x1000
      in if size1 > MAX_ALLOCATION_SIZE then MAX_ALLOCATION_SIZE else size1)"

text \<open>\<open>RtlAllocateHeapHook.\_allocate\_mem\<close>, lines 182 to 191. The first argument is
  the instance's \<open>\_heap\_addr\<close>; the result is the returned address, the emulator and
  the new \<open>\_heap\_addr\<close>. \<open>"\x00" * n\<close> is the empty string for negative \<open>n\<close>.\<close>

definition allocate_mem :: "int \<Rightarrow> emulator \<Rightarrow> int \<Rightarrow> int \<times> emulator \<times> int" where
  "allocate_mem heap_addr emu size0 =
     (let size1 = granted_size size0;
          va = heap_addr;
          emu1 = addMemoryMap emu va MM_RWX ''[heap allocation]''
                   (replicate (nat (size1 + 4)) 0);
          emu2 = writeMemory emu1 va (replicate (nat size1) 0)
      in (va, emu2, heap_addr + size1))"

definition heap_base :: int where
  "heap_base = 0x69690000"

text \<open>The \<open>hook\<close> methods of the three allocation hooks. Each works on its own
  instance's \<open>\_heap\_addr\<close> and on the emulator; raising UnsupportedFunction is \<open>Inl\<close>.
  The \<open>api\<close> argument is used by none of them and is left out.\<close>

definition RtlAllocateHeapHook_hook ::
  "callconv \<Rightarrow> string \<Rightarrow> int list \<Rightarrow> int \<times> emulator \<Rightarrow> (exn + retval) \<times> int \<times> emulator" where
  "RtlAllocateHeapHook_hook cc callname argv s =
     (case s of (heap_addr, emu) \<Rightarrow>
       if callname = ''ntdll.RtlAllocateHeap'' then
         (let size0 = getStackValue emu 0xC
          in case allocate_mem heap_addr emu size0 of
               (va, emu', heap_addr') \<Rightarrow>
                 (Inr RTrue, heap_addr', execCallReturn cc emu' va (length argv)))
       else (Inl UnsupportedFunction, heap_addr, emu))"

definition AllocateHeap_hook ::
  "callconv \<Rightarrow> string \<Rightarrow> int list \<Rightarrow> int \<times> emulator \<Rightarrow> (exn + retval) \<times> int \<times> emulator" where
  "AllocateHeap_hook cc callname argv s =
     (case s of (heap_addr, emu) \<Rightarrow>
       if callname = ''kernel32.LocalAlloc'' \<or> callname = ''kernel32.GlobalAlloc''
          \<or> callname = ''kernel32.VirtualAlloc'' then
         (let size0 = getStackValue emu 0x8
          in case allocate_mem heap_addr emu size0 of
               (va, emu', heap_addr') \<Rightarrow>
                 (Inr RTrue, heap_addr', execCallReturn cc emu' va (length argv)))
       else (Inl UnsupportedFunction, heap_addr, emu))"

definition MallocHeap_hook ::
  "callconv \<Rightarrow> string \<Rightarrow> int list \<Rightarrow> int \<times> emulator \<Rightarrow> (exn + retval) \<times> int \<times> emulator" where
  "MallocHeap_hook cc callname argv s =
     (case s of (heap_addr, emu) \<Rightarrow>
       if callname = ''msvcrt.malloc'' then
         (let size0 = getStackValue emu 0x4
          in case allocate_mem heap_addr emu 0x100 of
               (va, emu', heap_addr') \<Rightarrow>
                 (Inr RTrue, heap_addr', execCallReturn cc emu' va (length argv)))
       else (Inl UnsupportedFunction, heap_addr, emu))"

section \<open>The return-address guard\<close>

text \<open>\<open>ApiMonitor\<close> keeps the function index (a dictionary-like object: a missing key
  raises KeyError) and the workspace \<open>\_vw\<close>, of which it uses \<open>getCallers\<close>.\<close>

record ApiMonitor =
  function_index :: "int \<rightharpoonup> int"
  getCallers :: "int \<Rightarrow> int list"

text \<open>\<open>ApiMonitor.\_get\_return\_vas\<close>, lines 73 to 83: the address after each call
  site of the function.\<close>

definition get_return_vas :: "ApiMonitor \<Rightarrow> emulator \<Rightarrow> int \<Rightarrow> int list" where
  "get_return_vas mon emu function_start =
     map (\<lambda>caller. let call_op = opcodes emu caller in op_va call_op + op_size call_op)
       (getCallers mon function_start)"

text \<open>Python's \<open>xrange(start, stop, step)\<close>: ValueError for a zero step.\<close>

definition xrange_py :: "int \<Rightarrow> int \<Rightarrow> int \<Rightarrow> exn + int list" where
  "xrange_py start stop step =
     (if step = 0 then Inl ValueError
      else if 0 < step then
        Inr (map (\<lambda>k. start + int k * step) [0..<nat ((stop - start + step - 1) div step)])
      else
        Inr (map (\<lambda>k. start + int k * step) [0..<nat ((start - stop - step - 1) div (- step))]))"

text \<open>The loop of \<open>\_fix\_return\<close>, lines 96 to 106, over the offsets still to visit.
  \<open>dumpStack\<close> only logs and is left out.\<close>

fun fix_return_scan ::
  "emulator \<Rightarrow> int \<Rightarrow> int \<Rightarrow> int list \<Rightarrow> int list \<Rightarrow> (exn + unit) \<times> emulator" where
  "fix_return_scan emu esp pointer_size return_addresses [] =
     (Inl (Exception ''No valid return address found...''), emu)"
| "fix_return_scan emu esp pointer_size return_addresses (offset # offsets) =
     (let ret_va_candidate = getStackValue emu offset
      in if ret_va_candidate \<in> set return_addresses then
           (Inr (),
            setStackCounter (setProgramCounter emu ret_va_candidate)
              (esp + offset + pointer_size))
         else fix_return_scan emu esp pointer_size return_addresses offsets)"

text \<open>\<open>ApiMonitor.\_fix\_return\<close>, lines 85 to 106.\<close>

definition fix_return :: "emulator \<Rightarrow> int \<Rightarrow> int list \<Rightarrow> (exn + unit) \<times> emulator" where
  "fix_return emu return_address return_addresses =
     (let NUM_ADDRESSES = 4;
          pointer_size = getPointerSize emu;
          STACK_SEARCH_WINDOW = pointer_size * NUM_ADDRESSES;
          esp = getStackCounter emu
      in case xrange_py 0 STACK_SEARCH_WINDOW pointer_size of
           Inl e \<Rightarrow> (Inl e, emu)
         | Inr offsets \<Rightarrow> fix_return_scan emu esp pointer_size return_addresses offsets)"

text \<open>Lines 60 to 62 of \<open>\_check\_return\<close>: the stack adjustment for \<open>ret imm16\<close>.\<close>

definition adjust_stack :: "emulator \<Rightarrow> opcode \<Rightarrow> emulator" where
  "adjust_stack emu op =
     (if op_opers op \<noteq> [] then
        setStackCounter emu (getStackCounter emu - oper_imm (hd (op_opers op)))
      else emu)"

text \<open>\<open>ApiMonitor.\_check\_return\<close>, lines 50 to 71.\<close>

definition check_return :: "ApiMonitor \<Rightarrow> emulator \<Rightarrow> opcode \<Rightarrow> (exn + unit) \<times> emulator" where
  "check_return mon emu op =
     (case function_index mon (op_va op) of
        None \<Rightarrow> (Inl KeyError, emu)
      | Some function_start \<Rightarrow>
          (let return_addresses = get_return_vas mon emu function_start;
               emu1 = adjust_stack emu op;
               return_address = getStackValue emu1 (- 4)
           in if return_address \<notin> set return_addresses then
                fix_return emu1 return_address return_addresses
              else (Inr (), emu1)))"

text \<open>\<open>ApiMonitor.posthook\<close>, lines 42 to 48: every exception of \<open>\_check\_return\<close> is
  caught and logged.\<close>

definition posthook :: "ApiMonitor \<Rightarrow> emulator \<Rightarrow> opcode \<Rightarrow> emulator" where
  "posthook mon emu op =
     (if op_mnem op = ''ret'' then
        (case check_return mon emu op of
           (Inl e, emu') \<Rightarrow> emu'
         | (Inr u, emu') \<Rightarrow> emu')
      else emu)"

section \<open>Snapshots, deltas and the collector\<close>

text \<open>Modelled from the spec: the memory image of a Snapshot (section 3), which the
  code takes with vivisect's \<open>getMemorySnap\<close>: here the list of maps and the bytes.\<close>

record Snapshot =
  memory :: "(int \<times> nat \<times> string \<times> nat) list \<times> (int \<Rightarrow> byte)"
  sp :: int
  pc :: int

definition make_snapshot :: "emulator \<Rightarrow> Snapshot" where
  "make_snapshot emu =
     \<lparr>memory = (memory_maps emu, memory_bytes emu),
      sp = getStackCounter emu, pc = getProgramCounter emu\<rparr>"

record Delta =
  pre_snap :: Snapshot
  post_snap :: Snapshot

text \<open>\<open>is\_import\<close>, lines 253 to 261.\<close>

definition is_import :: "emulator \<Rightarrow> int \<Rightarrow> bool" where
  "is_import emu va =
     (case viv_taint emu va of
        None \<Rightarrow> False
      | Some t \<Rightarrow> fst (snd t) = ''import'')"

text \<open>\<open>DeltaCollectorHook\<close>, lines 290 to 303.\<close>

record DeltaCollectorHook =
  collector_pre_snap :: Snapshot
  deltas :: "Delta list"

definition DeltaCollectorHook_init :: "Snapshot \<Rightarrow> DeltaCollectorHook" where
  "DeltaCollectorHook_init pre = \<lparr>collector_pre_snap = pre, deltas = []\<rparr>"

definition DeltaCollectorHook_hook ::
  "string \<Rightarrow> int list \<Rightarrow> DeltaCollectorHook \<times> emulator \<Rightarrow> (exn + retval) \<times> DeltaCollectorHook" where
  "DeltaCollectorHook_hook callname argv s =
     (case s of (self, emu) \<Rightarrow>
       if is_import emu (getProgramCounter emu) then
         (Inr RNone,
          self\<lparr>deltas := deltas self @
            [\<lparr>pre_snap = collector_pre_snap self, post_snap = make_snapshot emu\<rparr>]\<rparr>)
       else (Inr RNone, self))"

section \<open>The other hooks\<close>

text \<open>\<open>GetProcessHeapHook.hook\<close>, lines 148 to 153.\<close>

definition GetProcessHeapHook_hook ::
  "callconv \<Rightarrow> string \<Rightarrow> int list \<Rightarrow> emulator \<Rightarrow> (exn + retval) \<times> emulator" where
  "GetProcessHeapHook_hook cc callname argv emu =
     (if callname = ''kernel32.GetProcessHeap'' then
        (Inr RTrue, execCallReturn cc emu 0 (length argv))
      else (Inl UnsupportedFunction, emu))"

text \<open>\<open>ExitProcessHook.hook\<close>, lines 248 to 250.\<close>

definition ExitProcessHook_hook :: "string \<Rightarrow> int list \<Rightarrow> exn + retval" where
  "ExitProcessHook_hook callname argv =
     (if callname = ''kernel32.ExitProcess'' then Inl StopEmulation else Inr RNone)"

section \<open>The driver and \<open>emulate\_function\<close>\<close>

text \<open>The state of one run: the emulator, the collector, and the \<open>\_heap\_addr\<close> of each
  of the three allocation hook instances \<open>emulate\_function\<close> creates.\<close>

record driver_state =
  drv_emu :: emulator
  delta_collector :: DeltaCollectorHook
  rtl_heap_addr :: int
  allocate_heap_addr :: int
  malloc_heap_addr :: int

datatype hook =
    HDeltaCollector
  | HGetProcessHeap
  | HRtlAllocateHeap
  | HAllocateHeap
  | HMallocHeap
  | HExitProcess

text \<open>Calling \<open>hook.hook(callname, driver, callconv, api, argv)\<close> on a registered hook.\<close>

fun hook_hook ::
  "callconv \<Rightarrow> hook \<Rightarrow> string \<Rightarrow> int list \<Rightarrow> driver_state \<Rightarrow> (exn + retval) \<times> driver_state" where
  "hook_hook cc HDeltaCollector callname argv st =
     (case DeltaCollectorHook_hook callname argv (delta_collector st, drv_emu st) of
        (r, self') \<Rightarrow> (r, st\<lparr>delta_collector := self'\<rparr>))"
| "hook_hook cc HGetProcessHeap callname argv st =
     (case GetProcessHeapHook_hook cc callname argv (drv_emu st) of
        (r, emu') \<Rightarrow> (r, st\<lparr>drv_emu := emu'\<rparr>))"
| "hook_hook cc HRtlAllocateHeap callname argv st =
     (case RtlAllocateHeapHook_hook cc callname argv (rtl_heap_addr st, drv_emu st) of
        (r, heap_addr', emu') \<Rightarrow> (r, st\<lparr>drv_emu := emu', rtl_heap_addr := heap_addr'\<rparr>))"
| "hook_hook cc HAllocateHeap callname argv st =
     (case AllocateHeap_hook cc callname argv (allocate_heap_addr st, drv_emu st) of
        (r, heap_addr', emu') \<Rightarrow> (r, st\<lparr>drv_emu := emu', allocate_heap_addr := heap_addr'\<rparr>))"
| "hook_hook cc HMallocHeap callname argv st =
     (case MallocHeap_hook cc callname argv (malloc_heap_addr st, drv_emu st) of
        (r, heap_addr', emu') \<Rightarrow> (r, st\<lparr>drv_emu := emu', malloc_heap_addr := heap_addr'\<rparr>))"
| "hook_hook cc HExitProcess callname argv st = (ExitProcessHook_hook callname argv, st)"

text \<open>Modelled from the spec: hook registration (section 6) and the allocation shim's
  failure mode (section 4.2); viv\_utils' driver is not part of the repository. The hooks
  are called in the order they were added; the first to claim the call (to return
  \<open>True\<close>) stops the chain; a hook that returns nothing or signals "unhandled"
  (UnsupportedFunction) passes the call on; any other exception leaves the chain. The
  result is \<open>True\<close> when a hook claimed the call.\<close>

fun run_hooks ::
  "callconv \<Rightarrow> hook list \<Rightarrow> string \<Rightarrow> int list \<Rightarrow> driver_state \<Rightarrow> (exn + bool) \<times> driver_state" where
  "run_hooks cc [] callname argv st = (Inr False, st)"
| "run_hooks cc (h # hs) callname argv st =
     (case hook_hook cc h callname argv st of
        (Inr RTrue, st') \<Rightarrow> (Inr True, st')
      | (Inr RNone, st') \<Rightarrow> run_hooks cc hs callname argv st'
      | (Inl e, st') \<Rightarrow>
          if e = UnsupportedFunction then run_hooks cc hs callname argv st'
          else (Inl e, st'))"

text \<open>Modelled from the spec: the Engine (section 6); vivisect's instruction semantics
  are not part of the repository. \<open>stepi\<close> retires one instruction: it gives the
  emulator afterwards and either a typed fault or the opcode retired, with the name and
  arguments of the call when the instruction called an API. \<open>unhooked\_call\<close> is what the
  Engine does with a call no hook claimed.\<close>

record engine =
  stepi :: "emulator \<Rightarrow> (exn + opcode \<times> (string \<times> int list) option) \<times> emulator"
  engine_callconv :: callconv
  unhooked_call :: "string \<Rightarrow> int list \<Rightarrow> emulator \<Rightarrow> (exn + unit) \<times> emulator"

text \<open>Modelled from the spec: \<open>stepUntil(targetAddr, maxInstructions)\<close> (section 6) and
  the RUNNING state (section 4.5), which the code reaches as the driver's
  \<open>runToVa(return\_address, max\_instruction\_count)\<close>. After each instruction the monitor's
  \<open>posthook\<close> runs, and a call goes through the hooks. The result is the exception that
  ended the run, if any, and the state the run left.\<close>

fun runToVa ::
  "engine \<Rightarrow> ApiMonitor \<Rightarrow> hook list \<Rightarrow> int \<Rightarrow> nat \<Rightarrow> driver_state \<Rightarrow> exn option \<times> driver_state" where
  "runToVa eng mon hooks va 0 st = (Some InstructionRangeExceededError, st)"
| "runToVa eng mon hooks va (Suc n) st =
     (if getProgramCounter (drv_emu st) = va then (None, st)
      else case stepi eng (drv_emu st) of
        (Inl e, emu') \<Rightarrow> (Some e, st\<lparr>drv_emu := emu'\<rparr>)
      | (Inr (op, call), emu') \<Rightarrow>
          (let st1 = st\<lparr>drv_emu := posthook mon emu' op\<rparr>
           in case call of
                None \<Rightarrow> runToVa eng mon hooks va n st1
              | Some (callname, argv) \<Rightarrow>
                  (case run_hooks (engine_callconv eng) hooks callname argv st1 of
                     (Inl e, st2) \<Rightarrow> (Some e, st2)
                   | (Inr True, st2) \<Rightarrow> runToVa eng mon hooks va n st2
                   | (Inr False, st2) \<Rightarrow>
                       (case unhooked_call eng callname argv (drv_emu st2) of
                          (Inl e, emu3) \<Rightarrow> (Some e, st2\<lparr>drv_emu := emu3\<rparr>)
                        | (Inr u, emu3) \<Rightarrow>
                            runToVa eng mon hooks va n (st2\<lparr>drv_emu := emu3\<rparr>)))))"

text \<open>The hooks in the order \<open>emulate\_function\<close> adds them, lines 341 to 346.\<close>

definition registered_hooks :: "hook list" where
  "registered_hooks =
     [HDeltaCollector, HGetProcessHeap, HRtlAllocateHeap, HAllocateHeap, HMallocHeap,
      HExitProcess]"

text \<open>The \<open>except\<close> clauses of \<open>emulate\_function\<close>, lines 348 to 363, in their order: the
  result is the exception that passes them, if any. The last clause,
  \<open>except Exception\<close>, catches whatever the earlier ones did not.\<close>

fun except_clauses :: "exn \<Rightarrow> exn option" where
  "except_clauses InstructionRangeExceededError = None"
| "except_clauses InvalidInstruction = None"
| "except_clauses UnsupportedInstruction = None"
| "except_clauses BreakpointHit = None"
| "except_clauses StopEmulation = None"
| "except_clauses e = None"

text \<open>\<open>emulate\_function\<close>, lines 306 to 368. \<open>fva\<close> is only logged. The emulator is
  changed in place by the run, so the model returns it beside the result.\<close>

definition emulate_function ::
  "engine \<Rightarrow> emulator \<Rightarrow> (int \<rightharpoonup> int) \<Rightarrow> int \<Rightarrow> int \<Rightarrow> int \<Rightarrow> (exn + Delta list) \<times> emulator" where
  "emulate_function eng emu findex fva return_address max_instruction_count =
     (let pre = make_snapshot emu;
          collector = DeltaCollectorHook_init pre;
          monitor = \<lparr>function_index = findex, getCallers = vw_getCallers emu\<rparr>;
          st0 = \<lparr>drv_emu = emu, delta_collector = collector, rtl_heap_addr = heap_base,
                 allocate_heap_addr = heap_base, malloc_heap_addr = heap_base\<rparr>
      in case runToVa eng monitor registered_hooks return_address
                (nat max_instruction_count) st0 of
           (raised, st) \<Rightarrow>
             (case (case raised of None \<Rightarrow> None | Some e \<Rightarrow> except_clauses e) of
                Some e \<Rightarrow> (Inl e, drv_emu st)
              | None \<Rightarrow>
                  (Inr (deltas (delta_collector st) @
                          [\<lparr>pre_snap = pre, post_snap = make_snapshot (drv_emu st)\<rparr>]),
                   drv_emu st)))"

text \<open>The invariant of a run: the collector keeps the snapshot it was created with, and
  every Delta it holds starts from that snapshot.\<close>

definition anchored :: "Snapshot \<Rightarrow> driver_state \<Rightarrow> bool" where
  "anchored P st =
     (collector_pre_snap (delta_collector st) = P
      \<and> list_all (\<lambda>d. pre_snap d = P) (deltas (delta_collector st)))"

section \<open>Values to evaluate the definitions on\<close>

text \<open>Successive calls of \<open>\_allocate\_mem\<close> on one hook instance. Between two calls
  the emulated program runs, so every call comes with the emulator it sees. The
  result lists, call by call, the returned address and the cursor's advance, and
  gives the final cursor.\<close>

fun allocations :: "int \<Rightarrow> (emulator \<times> int) list \<Rightarrow> (int \<times> int) list \<times> int" where
  "allocations heap_addr [] = ([], heap_addr)"
| "allocations heap_addr ((emu, size0) # calls) =
     (case allocate_mem heap_addr emu size0 of
        (va, emu', heap_addr') \<Rightarrow>
          (case allocations heap_addr' calls of
             (rs, final) \<Rightarrow> ((va, heap_addr' - va) # rs, final)))"

text \<open>An emulator to evaluate the definitions on: a 32-bit machine, memory all zero.\<close>

definition sample_emu :: emulator where
  "sample_emu =
     \<lparr>stack_counter = 0x1000, program_counter = 0x401000, imem_psize = 4,
      memory_bytes = (\<lambda>a. 0), memory_maps = [],
      viv_taint = (\<lambda>a. None),
      opcodes = (\<lambda>a. \<lparr>op_va = a, op_size = 5, op_mnem = ''call'', op_opers = []\<rparr>),
      vw_getCallers = (\<lambda>f. if f = 0x401000 then [0x402000] else [])\<rparr>"

text \<open>A calling convention to evaluate the hooks with: the callee pops the return
  address and its arguments, as stdcall does.\<close>

definition sample_cc :: callconv where
  "sample_cc =
     \<lparr>execCallReturn = (\<lambda>emu v argc.
        emu\<lparr>program_counter := readPointer emu (stack_counter emu),
            stack_counter := stack_counter emu + 4 + 4 * int argc\<rparr>)\<rparr>"

text \<open>A monitor, two return instructions at 0x401020 in the function at 0x401000, whose
  one caller is at 0x402000 (so 0x402005 is the one valid return address), and two
  stacks: one with the valid address at offset +8, one with it where \<open>ret 8\<close> left
  it.\<close>

definition sample_mon :: ApiMonitor where
  "sample_mon =
     \<lparr>function_index = (\<lambda>va. if va = 0x401020 then Some 0x401000 else None),
      getCallers = vw_getCallers sample_emu\<rparr>"

definition ret_op :: opcode where
  "ret_op = \<lparr>op_va = 0x401020, op_size = 1, op_mnem = ''ret'', op_opers = []\<rparr>"

definition ret8_op :: opcode where
  "ret8_op =
     \<lparr>op_va = 0x401020, op_size = 3, op_mnem = ''ret'', op_opers = [\<lparr>oper_imm = 8\<rparr>]\<rparr>"

definition scenario_b_emu :: emulator where
  "scenario_b_emu = writeMemory sample_emu 0x1008 [0x05, 0x20, 0x40, 0x00]"

definition ret8_emu :: emulator where
  "ret8_emu = writeMemory sample_emu 0xFF4 [0x05, 0x20, 0x40, 0x00]"

text \<open>An engine whose instruction at 0x401010 calls \<open>kernel32.ExitProcess\<close>, imported at
  0x500000, and which faults anywhere else; an emulator about to run that instruction, and
  the emulator after it.\<close>

definition import_emu :: emulator where
  "import_emu =
     sample_emu\<lparr>program_counter := 0x401010,
       viv_taint := (\<lambda>a. if a = 0x500000
                         then Some (0x500000, ''import'', ''kernel32.ExitProcess'')
                         else None)\<rparr>"

definition called_emu :: emulator where
  "called_emu = import_emu\<lparr>program_counter := 0x500000, stack_counter := 0xFFC\<rparr>"

definition sample_engine :: engine where
  "sample_engine =
     \<lparr>stepi = (\<lambda>emu.
        if program_counter emu = 0x401010 then
          (Inr (\<lparr>op_va = 0x401010, op_size = 5, op_mnem = ''call'', op_opers = []\<rparr>,
                Some (''kernel32.ExitProcess'', [0])),
           emu\<lparr>program_counter := 0x500000, stack_counter := stack_counter emu - 4\<rparr>)
        else (Inl InvalidInstruction, emu)),
      engine_callconv = sample_cc,
      unhooked_call = (\<lambda>callname argv emu. (Inl UnsupportedFunction, emu))\<rparr>"

text \<open>An engine whose instruction at 0x401010 calls \<open>msvcrt.malloc\<close> and whose
  instruction at 0x401015 calls \<open>kernel32.LocalAlloc\<close>, each pushing its return address,
  and an emulator about to run the first, with 16 where the second call finds its
  size.\<close>

definition alloc_emu :: emulator where
  "alloc_emu =
     writeMemory (sample_emu\<lparr>program_counter := 0x401010\<rparr>) 0x1004 [0x10, 0x00, 0x00, 0x00]"

definition alloc_engine :: engine where
  "alloc_engine =
     \<lparr>stepi = (\<lambda>emu.
        if program_counter emu = 0x401010 then
          (Inr (\<lparr>op_va = 0x401010, op_size = 5, op_mnem = ''call'', op_opers = []\<rparr>,
                Some (''msvcrt.malloc'', [])),
           (writeMemory emu (stack_counter emu - 4) [0x15, 0x10, 0x40, 0x00])
             \<lparr>program_counter := 0x600000, stack_counter := stack_counter emu - 4\<rparr>)
        else if program_counter emu = 0x401015 then
          (Inr (\<lparr>op_va = 0x401015, op_size = 5, op_mnem = ''call'', op_opers = []\<rparr>,
                Some (''kernel32.LocalAlloc'', [])),
           (writeMemory emu (stack_counter emu - 4) [0x1A, 0x10, 0x40, 0x00])
             \<lparr>program_counter := 0x600010, stack_counter := stack_counter emu - 4\<rparr>)
        else (Inl InvalidInstruction, emu)),
      engine_callconv = sample_cc,
      unhooked_call = (\<lambda>callname argv emu. (Inl UnsupportedFunction, emu))\<rparr>"

section \<open>Properties of the allocation shims\<close>

lemma round_py_ge: "0 \<le> i \<Longrightarrow> i \<le> round_py i 0x1000"
proof -
  assume "0 \<le> i"
  then have "i mod 0x1000 \<le> i"
    by (rule zmod_le_nonneg_dividend)
  then show ?thesis
    by (simp add: round_py_def)
qed

lemma granted_size_nonneg: "0 \<le> s \<Longrightarrow> 0 \<le> granted_size s"
  using round_py_ge [of s]
  by (simp add: granted_size_def MAX_ALLOCATION_SIZE_def Let_def)

lemma granted_size_pos: "0 < s \<Longrightarrow> 0 < granted_size s"
  using round_py_ge [of s]
  by (simp add: granted_size_def MAX_ALLOCATION_SIZE_def Let_def)

lemma granted_size_10: "granted_size 10 = 10"
  by (simp add: granted_size_def round_py_def MAX_ALLOCATION_SIZE_def)

lemma granted_size_5000: "granted_size 5000 = 9096"
  by (simp add: granted_size_def round_py_def MAX_ALLOCATION_SIZE_def)

lemma granted_size_0: "granted_size 0 = 0"
  by (simp add: granted_size_def round_py_def MAX_ALLOCATION_SIZE_def)

lemma granted_size_256: "granted_size 0x100 = 256"
  by (simp add: granted_size_def round_py_def MAX_ALLOCATION_SIZE_def)

lemma allocate_mem_va: "fst (allocate_mem h e s) = h"
  by (simp add: allocate_mem_def Let_def)

lemma allocate_mem_cursor: "snd (snd (allocate_mem h e s)) = h + granted_size s"
  by (simp add: allocate_mem_def Let_def)


text \<open>The map behind an allocation is four bytes longer than the granted size.\<close>

lemma allocate_mem_maps:
  "memory_maps (fst (snd (allocate_mem h e s))) =
     memory_maps e @ [(h, MM_RWX, ''[heap allocation]'', nat (granted_size s + 4))]"
  by (simp add: allocate_mem_def Let_def writeMemory_def addMemoryMap_def)

lemma getStackValue_sample_10:
  "getStackValue (writeMemory sample_emu 0x100C [10, 0, 0, 0]) 0xC = 10"
  by (simp add: getStackValue_def readPointer_def getStackCounter_def writeMemory_def
      sample_emu_def upt_rec)

text \<open>
  Claim C1. The claim expects a request of \<open>s\<close> bytes to be granted
  \<open>min (ceil (s / 4096) * 4096) (10 MiB)\<close> bytes, which is 4096 for \<open>s = 10\<close>. The code
  grants 10: \<open>round\<close> adds \<open>i - i mod size\<close> where its docstring needs
  \<open>size - i mod size\<close>. Evaluated through the hook, with 10 stored at stack offset 0xC,
  and on \<open>\_allocate\_mem\<close> directly.
\<close>

theorem rtl_allocate_request_10:
  "fst (snd (RtlAllocateHeapHook_hook cc ''ntdll.RtlAllocateHeap'' argv
       (heap_base, writeMemory sample_emu 0x100C [10, 0, 0, 0]))) - heap_base = 10
   \<and> snd (snd (allocate_mem h emu 10)) - fst (allocate_mem h emu 10) = 10
   \<and> min (((10 + 4095) div 4096) * 4096) MAX_ALLOCATION_SIZE = (4096::int)"
  by (simp add: RtlAllocateHeapHook_hook_def getStackValue_sample_10 allocate_mem_def
      Let_def granted_size_10 MAX_ALLOCATION_SIZE_def)

text \<open>
  Claim C2. Two calls of the allocation shim with requested sizes 10 and 5000, from the
  cursor 0x69690000: the claim expects the addresses 0x69690000 and 0x69691000. The code
  returns 0x69690000 and 0x6969000A: \<open>round\<close> leaves 10 as it is, and turns 5000 into
  9096, so the cursor ends at 0x69692392.
\<close>

theorem allocations_10_5000:
  "allocations heap_base [(e1, 10), (e2, 5000)] =
     ([(0x69690000, 10), (0x6969000A, 9096)], 0x69692392)"
  by (simp add: allocate_mem_def Let_def granted_size_10 granted_size_5000 heap_base_def)

lemma allocations_step:
  "allocations h ((e, s) # calls) =
     ((h, granted_size s) # fst (allocations (h + granted_size s) calls),
      snd (allocations (h + granted_size s) calls))"
  by (simp add: allocate_mem_def Let_def split: prod.splits)

lemma allocations_bounds:
  "\<forall>c\<in>set calls. 0 \<le> snd c \<Longrightarrow>
     h \<le> snd (allocations h calls) \<and>
     (\<forall>r\<in>set (fst (allocations h calls)). h \<le> fst r)"
proof (induction calls arbitrary: h)
  case Nil
  then show ?case by simp
next
  case (Cons c calls)
  obtain e s where c: "c = (e, s)" by (cases c)
  from Cons.prems c have s: "0 \<le> granted_size s"
    by (simp add: granted_size_nonneg)
  from Cons.prems have "\<forall>c\<in>set calls. 0 \<le> snd c" by simp
  from Cons.IH [OF this, of "h + granted_size s"] s c show ?case
    by (auto simp: allocations_step simp del: allocations.simps(2))
qed

lemma allocations_nth:
  "i < length calls \<Longrightarrow>
     snd (fst (allocations h calls) ! i) = granted_size (snd (calls ! i))"
proof (induction calls arbitrary: h i)
  case Nil
  then show ?case by simp
next
  case (Cons c calls)
  obtain e s where c: "c = (e, s)" by (cases c)
  show ?case
  proof (cases i)
    case 0
    then show ?thesis by (simp add: c allocations_step del: allocations.simps(2))
  next
    case (Suc k)
    with Cons.prems have "k < length calls" by simp
    from Cons.IH [OF this] Suc show ?thesis by (simp add: c allocations_step del: allocations.simps(2))
  qed
qed

lemma allocations_length': "length (fst (allocations h calls)) = length calls"
  by (induction calls arbitrary: h) (auto simp: allocations_step simp del: allocations.simps(2))

lemma allocations_disjoint:
  "\<forall>c\<in>set calls. 0 \<le> snd c \<Longrightarrow> i < j \<Longrightarrow> j < length calls \<Longrightarrow>
     fst (fst (allocations h calls) ! i) + snd (fst (allocations h calls) ! i)
       \<le> fst (fst (allocations h calls) ! j)"
proof (induction calls arbitrary: h i j)
  case Nil
  then show ?case by simp
next
  case (Cons c calls)
  obtain e s where c: "c = (e, s)" by (cases c)
  from Cons.prems have nn: "\<forall>c\<in>set calls. 0 \<le> snd c" by simp
  from Cons.prems obtain j' where j: "j = Suc j'" and j': "j' < length calls"
    by (cases j) auto
  show ?case
  proof (cases i)
    case 0
    have "fst (allocations (h + granted_size s) calls) ! j'
            \<in> set (fst (allocations (h + granted_size s) calls))"
      using j' by (simp add: allocations_length')
    with allocations_bounds [OF nn, of "h + granted_size s"]
    have "h + granted_size s \<le> fst (fst (allocations (h + granted_size s) calls) ! j')"
      by blast
    with 0 j show ?thesis by (simp add: c allocations_step del: allocations.simps(2))
  next
    case (Suc k)
    with Cons.prems j have "k < j'" by simp
    from Cons.IH [OF nn this j', of "h + granted_size s"] Suc j show ?thesis
      by (simp add: c allocations_step del: allocations.simps(2))
  qed
qed


text \<open>
  What one hook instance does keep: over its successive allocations with requested sizes
  that are not negative, its cursor never decreases, the addresses it returns never
  decrease, each address plus the granted size is at most every later address, and a
  positive requested size is followed by strictly greater addresses.
\<close>

lemma heap_cursor_monotone:
  assumes "allocations h calls = (rs, final)"
    and "\<forall>c\<in>set calls. 0 \<le> snd c"
  shows "h \<le> final
     \<and> (\<forall>i j. i < j \<and> j < length rs \<longrightarrow>
           fst (rs ! i) \<le> fst (rs ! j)
         \<and> fst (rs ! i) + snd (rs ! i) \<le> fst (rs ! j)
         \<and> (0 < snd (calls ! i) \<longrightarrow> fst (rs ! i) < fst (rs ! j)))"
proof -
  have rs: "rs = fst (allocations h calls)" and final: "final = snd (allocations h calls)"
    using assms(1) by simp_all
  have len: "length rs = length calls"
    by (simp add: rs allocations_length')
  have "h \<le> final"
    using allocations_bounds [OF assms(2), of h] by (simp add: final)
  moreover
  {
    fix i j
    assume ij: "i < j" and j: "j < length rs"
    then have i: "i < length calls" and j': "j < length calls"
      using len by simp_all
    have d: "fst (rs ! i) + snd (rs ! i) \<le> fst (rs ! j)"
      unfolding rs by (rule allocations_disjoint [OF assms(2) ij j'])
    have g: "snd (rs ! i) = granted_size (snd (calls ! i))"
      unfolding rs by (rule allocations_nth [OF i])
    have "calls ! i \<in> set calls"
      using i by simp
    with assms(2) have "0 \<le> snd (calls ! i)"
      by blast
    then have nn: "0 \<le> snd (rs ! i)"
      by (simp add: g granted_size_nonneg)
    have "0 < snd (calls ! i) \<longrightarrow> 0 < snd (rs ! i)"
      by (simp add: g granted_size_pos)
    with d nn have "fst (rs ! i) \<le> fst (rs ! j)
         \<and> fst (rs ! i) + snd (rs ! i) \<le> fst (rs ! j)
         \<and> (0 < snd (calls ! i) \<longrightarrow> fst (rs ! i) < fst (rs ! j))"
      by auto
  }
  ultimately show ?thesis by blast
qed

lemma allocations_sample:
  "allocations heap_base [(sample_emu, 10), (sample_emu, 5000)] =
     ([(0x69690000, 10), (0x6969000A, 9096)], 0x69692392)"
  by (simp add: allocate_mem_def Let_def granted_size_10 granted_size_5000 heap_base_def)

text \<open>Two allocations of size 0 on one instance return the same address.\<close>

lemma successive_bases_not_strict:
  "\<not> (\<forall>h calls rs final. allocations h calls = (rs, final) \<longrightarrow>
        (\<forall>i j. i < j \<and> j < length rs \<longrightarrow> fst (rs ! i) < fst (rs ! j)))"
proof
  assume a: "\<forall>h calls rs final. allocations h calls = (rs, final) \<longrightarrow>
        (\<forall>i j. i < j \<and> j < length rs \<longrightarrow> fst (rs ! i) < fst (rs ! j))"
  have e: "allocations heap_base [(sample_emu, 0), (sample_emu, 0)] =
      ([(heap_base, 0), (heap_base, 0)], heap_base)"
    by (simp add: allocate_mem_def Let_def granted_size_0)
  from a e have "\<forall>i j. i < j \<and> j < length [(heap_base, 0::int), (heap_base, 0)] \<longrightarrow>
      fst ([(heap_base, 0::int), (heap_base, 0)] ! i) < fst ([(heap_base, 0::int), (heap_base, 0)] ! j)"
    by blast
  then have "fst ([(heap_base, 0::int), (heap_base, 0)] ! 0) < fst ([(heap_base, 0::int), (heap_base, 0)] ! 1)"
    by (metis One_nat_def lessI length_Cons list.size(3))
  then show False by simp
qed



section \<open>Properties of the return-address guard\<close>

lemma xrange_window: "0 < p \<Longrightarrow> xrange_py 0 (p * 4) p = Inr [0, p, 2 * p, 3 * p]"
proof -
  assume p: "0 < p"
  have "(p * 4 + p - 1) div p = 4"
  proof (rule int_div_pos_eq)
    show "p * 4 + p - 1 = p * 4 + (p - 1)" by simp
    show "0 \<le> p - 1" using p by simp
    show "p - 1 < p" by simp
  qed
  then have "nat ((p * 4 - 0 + p - 1) div p) = 4" by simp
  then show ?thesis
    using p by (simp add: xrange_py_def upt_rec eval_nat_numeral)
qed

lemma fix_return_found:
  assumes "0 < getPointerSize emu" and "k < 4"
    and "getStackValue emu (int k * getPointerSize emu) \<in> set ras"
    and "\<forall>j<k. getStackValue emu (int j * getPointerSize emu) \<notin> set ras"
  shows "fix_return emu ra ras =
    (Inr (), emu\<lparr>program_counter := getStackValue emu (int k * getPointerSize emu),
                 stack_counter := stack_counter emu + int k * getPointerSize emu
                    + getPointerSize emu\<rparr>)"
proof -
  let ?p = "getPointerSize emu"
  have w: "xrange_py 0 (?p * 4) ?p = Inr [0, ?p, 2 * ?p, 3 * ?p]"
    using assms(1) by (rule xrange_window)
  from assms(2) consider "k = 0" | "k = 1" | "k = 2" | "k = 3" by linarith
  then show ?thesis
  proof cases
    case 1
    with assms(3) show ?thesis
      by (simp add: fix_return_def w Let_def setStackCounter_def setProgramCounter_def
          getStackCounter_def)
  next
    case 2
    with assms(3) assms(4) [rule_format, of 0] show ?thesis
      by (simp add: fix_return_def w Let_def setStackCounter_def setProgramCounter_def
          getStackCounter_def)
  next
    case 3
    with assms(3) assms(4) [rule_format, of 0] assms(4) [rule_format, of 1] show ?thesis
      by (simp add: fix_return_def w Let_def setStackCounter_def setProgramCounter_def
          getStackCounter_def)
  next
    case 4
    with assms(3) assms(4) [rule_format, of 0] assms(4) [rule_format, of 1]
      assms(4) [rule_format, of 2] show ?thesis
      by (simp add: fix_return_def w Let_def setStackCounter_def setProgramCounter_def
          getStackCounter_def)
  qed
qed

lemma fix_return_not_found:
  assumes "0 < getPointerSize emu"
    and "\<forall>j<4. getStackValue emu (int j * getPointerSize emu) \<notin> set ras"
  shows "fix_return emu ra ras = (Inl (Exception ''No valid return address found...''), emu)"
proof -
  let ?p = "getPointerSize emu"
  have w: "xrange_py 0 (?p * 4) ?p = Inr [0, ?p, 2 * ?p, 3 * ?p]"
    using assms(1) by (rule xrange_window)
  from assms(2) [rule_format, of 0] assms(2) [rule_format, of 1]
    assms(2) [rule_format, of 2] assms(2) [rule_format, of 3]
  show ?thesis
    by (simp add: fix_return_def w Let_def)
qed

lemma adjust_stack_fields:
  "getPointerSize (adjust_stack emu op) = getPointerSize emu"
  by (simp add: adjust_stack_def getPointerSize_def setStackCounter_def)


text \<open>
  Claim C3, as amended. For a \<open>ret\<close> that carries an immediate operand, the guard lowers
  the stack pointer by the immediate (it subtracts it), and only then reads the observed
  return value, 4 bytes below the adjusted stack pointer, and checks it against the
  valid-target set; the adjustment stays whatever the check finds.
\<close>

theorem check_return_ret_imm:
  assumes "function_index mon (op_va op) = Some f" and "op_opers op = opr # rest"
  shows "adjust_stack emu op = emu\<lparr>stack_counter := stack_counter emu - oper_imm opr\<rparr>
     \<and> check_return mon emu op =
         (if readPointer emu (stack_counter emu - oper_imm opr - 4)
               \<in> set (get_return_vas mon emu f)
          then (Inr (), emu\<lparr>stack_counter := stack_counter emu - oper_imm opr\<rparr>)
          else fix_return (emu\<lparr>stack_counter := stack_counter emu - oper_imm opr\<rparr>)
                 (readPointer emu (stack_counter emu - oper_imm opr - 4))
                 (get_return_vas mon emu f))"
proof -
  have a: "adjust_stack emu op = emu\<lparr>stack_counter := stack_counter emu - oper_imm opr\<rparr>"
    using assms(2) by (simp add: adjust_stack_def setStackCounter_def getStackCounter_def)
  have r: "getStackValue (emu\<lparr>stack_counter := stack_counter emu - oper_imm opr\<rparr>) (- 4)
      = readPointer emu (stack_counter emu - oper_imm opr - 4)"
    by (simp add: getStackValue_def getStackCounter_def readPointer_def)
  show ?thesis
    using assms(1) by (simp add: a check_return_def Let_def r)
qed

text \<open>
  What the guard does, case by case. Let the function of the return instruction be known
  to the function index. The guard first applies the stack adjustment of a \<open>ret imm16\<close>
  (none for a \<open>ret\<close> without operand). Then: if the observed return value is in the
  valid-target set, nothing else changes; if it is not, and slot \<open>k\<close> of the 4
  pointer-sized slots from the top of the stack on is the first whose value is in the set,
  the program counter becomes that value and the stack pointer moves just past that slot;
  if none of the 4 slots matches, nothing else changes, the exception raised is the
  diagnostic, and \<open>posthook\<close> swallows it.
\<close>

lemma check_return_cases:
  assumes "function_index mon (op_va op) = Some f"
  shows "(op_opers op = [] \<longrightarrow> adjust_stack emu op = emu)
     \<and> (getStackValue (adjust_stack emu op) (- 4) \<in> set (get_return_vas mon emu f) \<longrightarrow>
          check_return mon emu op = (Inr (), adjust_stack emu op))
     \<and> (getStackValue (adjust_stack emu op) (- 4) \<notin> set (get_return_vas mon emu f)
          \<and> 0 < getPointerSize emu \<and> k < 4
          \<and> getStackValue (adjust_stack emu op) (int k * getPointerSize emu)
               \<in> set (get_return_vas mon emu f)
          \<and> (\<forall>j<k. getStackValue (adjust_stack emu op) (int j * getPointerSize emu)
               \<notin> set (get_return_vas mon emu f)) \<longrightarrow>
          check_return mon emu op =
            (Inr (), (adjust_stack emu op)
               \<lparr>program_counter :=
                  getStackValue (adjust_stack emu op) (int k * getPointerSize emu),
                stack_counter := stack_counter (adjust_stack emu op)
                  + int k * getPointerSize emu + getPointerSize emu\<rparr>))
     \<and> (getStackValue (adjust_stack emu op) (- 4) \<notin> set (get_return_vas mon emu f)
          \<and> 0 < getPointerSize emu
          \<and> (\<forall>j<4. getStackValue (adjust_stack emu op) (int j * getPointerSize emu)
               \<notin> set (get_return_vas mon emu f)) \<longrightarrow>
          check_return mon emu op =
            (Inl (Exception ''No valid return address found...''), adjust_stack emu op)
          \<and> (op_mnem op = ''ret'' \<longrightarrow> posthook mon emu op = adjust_stack emu op))"
proof -
  let ?e = "adjust_stack emu op"
  let ?ras = "get_return_vas mon emu f"
  have p: "getPointerSize ?e = getPointerSize emu"
    by (rule adjust_stack_fields)
  have c: "check_return mon emu op =
      (if getStackValue ?e (- 4) \<notin> set ?ras
       then fix_return ?e (getStackValue ?e (- 4)) ?ras else (Inr (), ?e))"
    using assms by (simp add: check_return_def Let_def)
  have 1: "op_opers op = [] \<longrightarrow> ?e = emu"
    by (simp add: adjust_stack_def)
  have 2: "getStackValue ?e (- 4) \<in> set ?ras \<longrightarrow> check_return mon emu op = (Inr (), ?e)"
    by (simp add: c)
  have 3: "getStackValue ?e (- 4) \<notin> set ?ras \<and> 0 < getPointerSize emu \<and> k < 4
      \<and> getStackValue ?e (int k * getPointerSize emu) \<in> set ?ras
      \<and> (\<forall>j<k. getStackValue ?e (int j * getPointerSize emu) \<notin> set ?ras) \<longrightarrow>
      check_return mon emu op =
        (Inr (), ?e\<lparr>program_counter := getStackValue ?e (int k * getPointerSize emu),
                   stack_counter := stack_counter ?e + int k * getPointerSize emu
                     + getPointerSize emu\<rparr>)"
  proof (intro impI, elim conjE)
    assume h: "getStackValue ?e (- 4) \<notin> set ?ras" "0 < getPointerSize emu" "k < 4"
      "getStackValue ?e (int k * getPointerSize emu) \<in> set ?ras"
      "\<forall>j<k. getStackValue ?e (int j * getPointerSize emu) \<notin> set ?ras"
    from fix_return_found [of ?e k ?ras "getStackValue ?e (- 4)"] h p
    show "check_return mon emu op =
        (Inr (), ?e\<lparr>program_counter := getStackValue ?e (int k * getPointerSize emu),
                   stack_counter := stack_counter ?e + int k * getPointerSize emu
                     + getPointerSize emu\<rparr>)"
      by (simp add: c)
  qed
  have 4: "getStackValue ?e (- 4) \<notin> set ?ras \<and> 0 < getPointerSize emu
      \<and> (\<forall>j<4. getStackValue ?e (int j * getPointerSize emu) \<notin> set ?ras) \<longrightarrow>
      check_return mon emu op =
        (Inl (Exception ''No valid return address found...''), ?e)
      \<and> (op_mnem op = ''ret'' \<longrightarrow> posthook mon emu op = ?e)"
  proof (intro impI, elim conjE)
    assume h: "getStackValue ?e (- 4) \<notin> set ?ras" "0 < getPointerSize emu"
      "\<forall>j<4. getStackValue ?e (int j * getPointerSize emu) \<notin> set ?ras"
    from fix_return_not_found [of ?e ?ras "getStackValue ?e (- 4)"] h p
    have "check_return mon emu op =
        (Inl (Exception ''No valid return address found...''), ?e)"
      by (simp add: c)
    then show "check_return mon emu op =
        (Inl (Exception ''No valid return address found...''), ?e)
      \<and> (op_mnem op = ''ret'' \<longrightarrow> posthook mon emu op = ?e)"
      by (simp add: posthook_def)
  qed
  from 1 2 3 4 show ?thesis by blast
qed


lemma sample_return_vas:
  "get_return_vas sample_mon (writeMemory sample_emu a bs) 0x401000 = [0x402005]"
  by (simp add: get_return_vas_def sample_mon_def sample_emu_def writeMemory_def)

lemma sample_function_index:
  "function_index sample_mon (op_va ret_op) = Some 0x401000"
  "function_index sample_mon (op_va ret8_op) = Some 0x401000"
  by (simp_all add: sample_mon_def ret_op_def ret8_op_def)

lemma ret8_read: "readPointer ret8_emu (stack_counter ret8_emu - 8 - 4) = 0x402005"
  by (simp add: ret8_emu_def readPointer_def writeMemory_def sample_emu_def upt_rec)

lemma scenario_b_reads:
  "getStackValue scenario_b_emu (- 4) = 0"
  "getStackValue scenario_b_emu 0 = 0"
  "getStackValue scenario_b_emu 4 = 0"
  "getStackValue scenario_b_emu 8 = 0x402005"
  by (simp_all add: scenario_b_emu_def getStackValue_def getStackCounter_def readPointer_def
      writeMemory_def sample_emu_def upt_rec)

lemma ret8_stack_counter: "stack_counter ret8_emu = 0x1000"
  by (simp add: ret8_emu_def writeMemory_def sample_emu_def)

lemma ret8_adjust: "adjust_stack ret8_emu ret8_op = ret8_emu\<lparr>stack_counter := 0xFF8\<rparr>"
  by (simp add: adjust_stack_def ret8_op_def setStackCounter_def getStackCounter_def
      ret8_stack_counter)

lemma ret8_observed:
  "getStackValue (adjust_stack ret8_emu ret8_op) (- 4) = 0x402005"
  using ret8_read
  by (simp add: ret8_adjust getStackValue_def getStackCounter_def readPointer_def
      ret8_stack_counter)

lemma ret8_return_vas: "get_return_vas sample_mon ret8_emu 0x401000 = [0x402005]"
  unfolding ret8_emu_def by (rule sample_return_vas)

lemma ret8_check_return:
  "check_return sample_mon ret8_emu ret8_op = (Inr (), ret8_emu\<lparr>stack_counter := 0xFF8\<rparr>)"
  using sample_function_index(2)
  by (simp add: check_return_def Let_def ret8_observed ret8_return_vas) (simp add: ret8_adjust)

theorem check_return_ret_imm_witness:
  "check_return sample_mon ret8_emu ret8_op =
     (Inr (), ret8_emu\<lparr>stack_counter := 0xFF8\<rparr>)
   \<and> adjust_stack ret8_emu ret8_op = ret8_emu\<lparr>stack_counter := 0xFF8\<rparr>
   \<and> stack_counter ret8_emu = 0x1000"
proof -
  have o: "op_opers ret8_op = \<lparr>oper_imm = 8\<rparr> # []"
    by (simp add: ret8_op_def)
  have s: "stack_counter ret8_emu = 0x1000"
    by (simp add: ret8_emu_def writeMemory_def sample_emu_def)
  have v: "get_return_vas sample_mon ret8_emu 0x401000 = [0x402005]"
    unfolding ret8_emu_def by (rule sample_return_vas)
  from check_return_ret_imm [OF sample_function_index(2) o, of ret8_emu] ret8_read s v
  show ?thesis by simp
qed

text \<open>
  Claim C3 as stated fails: for \<open>ret 8\<close> with the stack pointer at 0x1000 and a valid
  return address in the slot the guard reads, the stack pointer ends at 0xFF8, not at
  0x1008.
\<close>

theorem ret_imm_lowers_stack_pointer:
  "\<not> (\<forall>mon emu op f opr rest.
        function_index mon (op_va op) = Some f \<longrightarrow> op_opers op = opr # rest \<longrightarrow>
        getStackValue (adjust_stack emu op) (- 4) \<in> set (get_return_vas mon emu f) \<longrightarrow>
        stack_counter (snd (check_return mon emu op)) = stack_counter emu + oper_imm opr)"
proof
  assume a: "\<forall>mon emu op f opr rest.
        function_index mon (op_va op) = Some f \<longrightarrow> op_opers op = opr # rest \<longrightarrow>
        getStackValue (adjust_stack emu op) (- 4) \<in> set (get_return_vas mon emu f) \<longrightarrow>
        stack_counter (snd (check_return mon emu op)) = stack_counter emu + oper_imm opr"
  have o: "op_opers ret8_op = \<lparr>oper_imm = 8\<rparr> # []"
    by (simp add: ret8_op_def)
  from a [rule_format, OF sample_function_index(2) o, of ret8_emu]
  have "stack_counter (snd (check_return sample_mon ret8_emu ret8_op))
      = stack_counter ret8_emu + 8"
    by (simp add: ret8_observed ret8_return_vas)
  then show False
    by (simp add: ret8_check_return ret8_stack_counter)
qed

text \<open>A \<open>ret\<close> without operand whose stack top is not valid and whose slot at offset +8
  is: the program counter becomes that value, the stack pointer moves to offset +12.\<close>

lemma check_return_cases_witness:
  "check_return sample_mon scenario_b_emu ret_op =
     (Inr (), scenario_b_emu\<lparr>program_counter := 0x402005, stack_counter := 0x100C\<rparr>)
   \<and> stack_counter scenario_b_emu = 0x1000
   \<and> getStackValue scenario_b_emu (- 4) \<notin> set (get_return_vas sample_mon scenario_b_emu 0x401000)
   \<and> getStackValue scenario_b_emu 8 \<in> set (get_return_vas sample_mon scenario_b_emu 0x401000)"
proof -
  have a: "adjust_stack scenario_b_emu ret_op = scenario_b_emu"
    by (simp add: adjust_stack_def ret_op_def)
  have s: "stack_counter scenario_b_emu = 0x1000"
    by (simp add: scenario_b_emu_def writeMemory_def sample_emu_def)
  have p: "getPointerSize scenario_b_emu = 4"
    by (simp add: getPointerSize_def scenario_b_emu_def writeMemory_def sample_emu_def)
  have v: "get_return_vas sample_mon scenario_b_emu 0x401000 = [0x402005]"
    unfolding scenario_b_emu_def by (rule sample_return_vas)
  have before: "\<forall>j<2. getStackValue scenario_b_emu (int j * 4) \<notin> set [0x402005]"
    by (auto simp: less_2_cases_iff scenario_b_reads)
  from check_return_cases [OF sample_function_index(1), of scenario_b_emu 2] before
  show ?thesis
    by (simp add: a s p v scenario_b_reads)
qed

text \<open>
  Claim C5. The claim expects the guard to mutate no state when the observed return value
  is in the valid-target set, as the docstring of \<open>\_check\_return\<close> does ("Do nothing, if
  return address is valid"). For \<open>ret 8\<close> with the stack pointer at 0x1000 and the valid
  return address 0x402005 in the slot the guard reads, the guard lowers the stack pointer
  to 0xFF8 and leaves it there; \<open>posthook\<close> returns that emulator.
\<close>

theorem valid_ret8_lowers_stack_pointer:
  "function_index sample_mon (op_va ret8_op) = Some 0x401000
   \<and> getStackValue (adjust_stack ret8_emu ret8_op) (- 4)
        \<in> set (get_return_vas sample_mon ret8_emu 0x401000)
   \<and> stack_counter ret8_emu = 0x1000
   \<and> check_return sample_mon ret8_emu ret8_op =
        (Inr (), ret8_emu\<lparr>stack_counter := 0xFF8\<rparr>)
   \<and> posthook sample_mon ret8_emu ret8_op = ret8_emu\<lparr>stack_counter := 0xFF8\<rparr>
   \<and> stack_counter (posthook sample_mon ret8_emu ret8_op) \<noteq> stack_counter ret8_emu"
proof -
  have p: "posthook sample_mon ret8_emu ret8_op = ret8_emu\<lparr>stack_counter := 0xFF8\<rparr>"
    by (simp add: posthook_def ret8_check_return) (simp add: ret8_op_def)
  show ?thesis
    by (simp add: sample_function_index ret8_observed ret8_return_vas ret8_stack_counter
        ret8_check_return p)
qed

section \<open>Properties of the collector and of \<open>emulate\_function\<close>\<close>

lemma collector_hook_result:
  "DeltaCollectorHook_hook callname argv (self, emu) =
     (Inr RNone,
      if is_import emu (getProgramCounter emu)
      then self\<lparr>deltas := deltas self @
             [\<lparr>pre_snap = collector_pre_snap self, post_snap = make_snapshot emu\<rparr>]\<rparr>
      else self)"
  by (simp add: DeltaCollectorHook_hook_def)

lemma hook_hook_other:
  "h \<noteq> HDeltaCollector \<Longrightarrow>
     delta_collector (snd (hook_hook cc h callname argv st)) = delta_collector st"
  by (cases h) (simp_all split: prod.splits)

lemma run_hooks_other:
  "HDeltaCollector \<notin> set hs \<Longrightarrow>
     delta_collector (snd (run_hooks cc hs callname argv st)) = delta_collector st"
proof (induction hs arbitrary: st)
  case Nil
  then show ?case by simp
next
  case (Cons h hs)
  then have h: "h \<noteq> HDeltaCollector" and hs: "HDeltaCollector \<notin> set hs"
    by auto
  obtain r st' where s: "hook_hook cc h callname argv st = (r, st')"
    by (cases "hook_hook cc h callname argv st")
  from hook_hook_other [OF h, of cc callname argv st] s
  have d: "delta_collector st' = delta_collector st"
    by simp
  from Cons.IH [OF hs, of st'] d show ?case
    by (simp add: s split: sum.splits retval.splits)
qed

lemma run_hooks_collector_first:
  "run_hooks cc (HDeltaCollector # hs) callname argv st =
     run_hooks cc hs callname argv
       (st\<lparr>delta_collector :=
          snd (DeltaCollectorHook_hook callname argv (delta_collector st, drv_emu st))\<rparr>)"
  by (simp add: collector_hook_result)

text \<open>
  Claim C10. The collector's \<open>hook\<close> returns \<open>None\<close> for every call, whether or not it
  records a Delta, so in a chain that stops at the first hook to claim a call the
  collector passes every call on: the chain continues with the hooks after it, on the
  state the collector left.
\<close>

theorem delta_collector_never_claims:
  "fst (DeltaCollectorHook_hook callname argv (self, emu)) = Inr RNone
   \<and> run_hooks cc (HDeltaCollector # hs) callname argv st =
       run_hooks cc hs callname argv
         (st\<lparr>delta_collector :=
            snd (DeltaCollectorHook_hook callname argv (delta_collector st, drv_emu st))\<rparr>)"
  by (simp add: collector_hook_result)

text \<open>
  Claim C8. When a call event goes through the hooks \<open>emulate\_function\<close> registers, the
  collector is changed by its own hook only: it gets one more Delta, pairing its initial
  snapshot with the emulator's state, if the address the program counter stands at (the
  call's target) is classified as imported, and stays as it is otherwise. So the list of
  Deltas changes if and only if the target is imported.
\<close>

theorem delta_recorded_iff_import:
  "delta_collector (snd (run_hooks cc registered_hooks callname argv st)) =
     (if is_import (drv_emu st) (getProgramCounter (drv_emu st))
      then (delta_collector st)\<lparr>deltas := deltas (delta_collector st) @
             [\<lparr>pre_snap = collector_pre_snap (delta_collector st),
               post_snap = make_snapshot (drv_emu st)\<rparr>]\<rparr>
      else delta_collector st)
   \<and> ((deltas (delta_collector (snd (run_hooks cc registered_hooks callname argv st)))
          \<noteq> deltas (delta_collector st))
        = is_import (drv_emu st) (getProgramCounter (drv_emu st)))"
proof -
  let ?st1 = "st\<lparr>delta_collector :=
      snd (DeltaCollectorHook_hook callname argv (delta_collector st, drv_emu st))\<rparr>"
  let ?rest = "[HGetProcessHeap, HRtlAllocateHeap, HAllocateHeap, HMallocHeap, HExitProcess]"
  have "run_hooks cc registered_hooks callname argv st = run_hooks cc ?rest callname argv ?st1"
    unfolding registered_hooks_def by (rule run_hooks_collector_first)
  moreover have "delta_collector (snd (run_hooks cc ?rest callname argv ?st1))
      = delta_collector ?st1"
    by (rule run_hooks_other) simp
  ultimately have "delta_collector (snd (run_hooks cc registered_hooks callname argv st))
      = snd (DeltaCollectorHook_hook callname argv (delta_collector st, drv_emu st))"
    by simp
  then show ?thesis
    by (simp add: collector_hook_result)
qed


lemma anchored_emu: "anchored P (st\<lparr>drv_emu := e\<rparr>) = anchored P st"
  by (simp add: anchored_def)

lemma hook_hook_anchored:
  "anchored P st \<Longrightarrow> anchored P (snd (hook_hook cc h callname argv st))"
proof (cases "h = HDeltaCollector")
  case True
  assume "anchored P st"
  then show ?thesis
    by (simp add: True collector_hook_result anchored_def)
next
  case False
  assume a: "anchored P st"
  from hook_hook_other [OF False, of cc callname argv st] a show ?thesis
    by (simp add: anchored_def)
qed

lemma run_hooks_anchored:
  "anchored P st \<Longrightarrow> anchored P (snd (run_hooks cc hs callname argv st))"
proof (induction hs arbitrary: st)
  case Nil
  then show ?case by simp
next
  case (Cons h hs)
  obtain r st' where s: "hook_hook cc h callname argv st = (r, st')"
    by (cases "hook_hook cc h callname argv st")
  from hook_hook_anchored [OF Cons.prems, of cc h callname argv] s
  have a: "anchored P st'" by simp
  from Cons.IH [OF a] a show ?case
    by (simp add: s split: sum.splits retval.splits)
qed

lemma runToVa_anchored:
  "anchored P st \<Longrightarrow> anchored P (snd (runToVa eng mon hooks va n st))"
proof (induction n arbitrary: st)
  case 0
  then show ?case by simp
next
  case (Suc n)
  show ?case
  proof (cases "getProgramCounter (drv_emu st) = va")
    case True
    with Suc.prems show ?thesis by simp
  next
    case False
    obtain r emu' where step: "stepi eng (drv_emu st) = (r, emu')"
      by (cases "stepi eng (drv_emu st)")
    show ?thesis
    proof (cases r)
      case (Inl e)
      with False step Suc.prems show ?thesis
        by (simp add: anchored_emu)
    next
      case (Inr oc)
      obtain op call where oc: "oc = (op, call)" by (cases oc)
      let ?st1 = "st\<lparr>drv_emu := posthook mon emu' op\<rparr>"
      have a1: "anchored P ?st1"
        using Suc.prems by (simp add: anchored_emu)
      show ?thesis
      proof (cases call)
        case None
        with False step Inr oc Suc.IH [OF a1] show ?thesis
          by simp
      next
        case (Some c)
        obtain callname argv where c: "c = (callname, argv)" by (cases c)
        obtain hr st2 where hk:
          "run_hooks (engine_callconv eng) hooks callname argv ?st1 = (hr, st2)"
          by (cases "run_hooks (engine_callconv eng) hooks callname argv ?st1")
        from run_hooks_anchored [OF a1, of "engine_callconv eng" hooks callname argv] hk
        have a2: "anchored P st2" by simp
        obtain ur emu3 where un: "unhooked_call eng callname argv (drv_emu st2) = (ur, emu3)"
          by (cases "unhooked_call eng callname argv (drv_emu st2)")
        have a3: "anchored P (st2\<lparr>drv_emu := emu3\<rparr>)"
          using a2 by (simp add: anchored_emu)
        from False step Inr oc Some c hk un a2 a3 Suc.IH [OF a2] Suc.IH [OF a3]
        show ?thesis
          by (simp split: sum.splits bool.splits)
      qed
    qed
  qed
qed

lemma except_clauses_None: "except_clauses e = None"
  by (cases e) simp_all

lemma emulate_function_result:
  "emulate_function eng emu findex fva return_address max_instruction_count =
     (let st = snd (runToVa eng \<lparr>function_index = findex, getCallers = vw_getCallers emu\<rparr>
                 registered_hooks return_address (nat max_instruction_count)
                 \<lparr>drv_emu = emu,
                  delta_collector = DeltaCollectorHook_init (make_snapshot emu),
                  rtl_heap_addr = heap_base, allocate_heap_addr = heap_base,
                  malloc_heap_addr = heap_base\<rparr>)
      in (Inr (deltas (delta_collector st) @
                [\<lparr>pre_snap = make_snapshot emu, post_snap = make_snapshot (drv_emu st)\<rparr>]),
          drv_emu st))"
  by (simp add: emulate_function_def Let_def except_clauses_None
      split: prod.splits option.splits)

text \<open>
  Claim C6. For every engine, emulator, return address and instruction budget,
  \<open>emulate\_function\<close> returns a list and raises nothing; the list is not empty, and its
  last element pairs the snapshot taken before the run with the emulator's state at the
  end of the run.
\<close>

theorem emulate_function_never_raises:
  "\<exists>ds emu'. emulate_function eng emu findex fva return_address max_instruction_count
       = (Inr ds, emu')
     \<and> ds \<noteq> []
     \<and> last ds = \<lparr>pre_snap = make_snapshot emu, post_snap = make_snapshot emu'\<rparr>"
  by (simp add: emulate_function_result Let_def)

text \<open>
  Claim C7. Every Delta of the list \<open>emulate\_function\<close> returns has the run's initial
  snapshot as its \<open>pre\_snap\<close>: those the collector recorded during the run and the
  final one.
\<close>

theorem deltas_anchored_at_start:
  assumes "emulate_function eng emu findex fva return_address max_instruction_count
     = (Inr ds, emu')"
  shows "\<forall>d\<in>set ds. pre_snap d = make_snapshot emu"
proof -
  let ?init = "\<lparr>drv_emu = emu,
      delta_collector = DeltaCollectorHook_init (make_snapshot emu),
      rtl_heap_addr = heap_base, allocate_heap_addr = heap_base,
      malloc_heap_addr = heap_base\<rparr>"
  let ?st = "snd (runToVa eng \<lparr>function_index = findex, getCallers = vw_getCallers emu\<rparr>
      registered_hooks return_address (nat max_instruction_count) ?init)"
  have "anchored (make_snapshot emu) ?init"
    by (simp add: anchored_def DeltaCollectorHook_init_def)
  then have "anchored (make_snapshot emu) ?st"
    by (rule runToVa_anchored)
  then have "\<forall>d\<in>set (deltas (delta_collector ?st)). pre_snap d = make_snapshot emu"
    by (simp add: anchored_def list_all_iff)
  moreover from assms have "ds = deltas (delta_collector ?st) @
      [\<lparr>pre_snap = make_snapshot emu, post_snap = make_snapshot (drv_emu ?st)\<rparr>]"
    by (auto simp: emulate_function_result Let_def)
  ultimately show ?thesis by auto
qed


text \<open>The runs the claim names: a fault at the first instruction, an exhausted budget,
  and a stop by the termination hook (on a call whose target is imported, so that the
  collector records a Delta before \<open>ExitProcessHook\<close> stops the run).\<close>

lemma emulate_function_first_fault:
  assumes "stepi eng emu = (Inl e, emu1)" and "getProgramCounter emu \<noteq> return_address"
    and "0 < max_instruction_count"
  shows "emulate_function eng emu findex fva return_address max_instruction_count =
     (Inr [\<lparr>pre_snap = make_snapshot emu, post_snap = make_snapshot emu1\<rparr>], emu1)"
proof -
  from assms(3) obtain n where n: "nat max_instruction_count = Suc n"
    by (cases "nat max_instruction_count") auto
  show ?thesis
    using assms(1,2)
    by (simp add: emulate_function_result n Let_def DeltaCollectorHook_init_def)
qed

lemma emulate_function_no_budget:
  assumes "max_instruction_count \<le> 0"
  shows "emulate_function eng emu findex fva return_address max_instruction_count =
     (Inr [\<lparr>pre_snap = make_snapshot emu, post_snap = make_snapshot emu\<rparr>], emu)"
  using assms
  by (simp add: emulate_function_result Let_def DeltaCollectorHook_init_def)

lemma import_call_is_import: "is_import called_emu (getProgramCounter called_emu)"
  by (simp add: is_import_def called_emu_def import_emu_def getProgramCounter_def)

lemma sample_stepi:
  "stepi sample_engine import_emu =
     (Inr (\<lparr>op_va = 0x401010, op_size = 5, op_mnem = ''call'', op_opers = []\<rparr>,
           Some (''kernel32.ExitProcess'', [0])), called_emu)"
  by (simp add: sample_engine_def import_emu_def called_emu_def sample_emu_def)

lemma emulate_function_exit_process:
  "emulate_function sample_engine import_emu Map.empty 0x401000 0x402005 1 =
     (Inr [\<lparr>pre_snap = make_snapshot import_emu, post_snap = make_snapshot called_emu\<rparr>,
           \<lparr>pre_snap = make_snapshot import_emu, post_snap = make_snapshot called_emu\<rparr>],
      called_emu)"
proof -
  have pc: "getProgramCounter import_emu \<noteq> 0x402005"
    by (simp add: getProgramCounter_def import_emu_def)
  show ?thesis
    using pc import_call_is_import
    by (simp add: emulate_function_result Let_def sample_stepi posthook_def
        registered_hooks_def collector_hook_result DeltaCollectorHook_init_def
        GetProcessHeapHook_hook_def RtlAllocateHeapHook_hook_def AllocateHeap_hook_def
        MallocHeap_hook_def ExitProcessHook_hook_def)
qed

theorem deltas_anchored_at_start_witness:
  "emulate_function sample_engine import_emu Map.empty 0x401000 0x402005 1 =
     (Inr [\<lparr>pre_snap = make_snapshot import_emu, post_snap = make_snapshot called_emu\<rparr>,
           \<lparr>pre_snap = make_snapshot import_emu, post_snap = make_snapshot called_emu\<rparr>],
      called_emu)
   \<and> pre_snap \<lparr>pre_snap = make_snapshot import_emu, post_snap = make_snapshot called_emu\<rparr>
       = make_snapshot import_emu"
  using deltas_anchored_at_start [OF emulate_function_exit_process] emulate_function_exit_process
  by simp

section \<open>Allocations within one run\<close>

lemma run_hooks_malloc:
  "run_hooks cc registered_hooks ''msvcrt.malloc'' argv st =
     (Inr True,
      st\<lparr>delta_collector :=
           snd (DeltaCollectorHook_hook ''msvcrt.malloc'' argv (delta_collector st, drv_emu st)),
         drv_emu := execCallReturn cc
           (fst (snd (allocate_mem (malloc_heap_addr st) (drv_emu st) 0x100)))
           (malloc_heap_addr st) (length argv),
         malloc_heap_addr := malloc_heap_addr st + granted_size 0x100\<rparr>)"
  by (simp add: registered_hooks_def collector_hook_result GetProcessHeapHook_hook_def
      RtlAllocateHeapHook_hook_def AllocateHeap_hook_def MallocHeap_hook_def
      allocate_mem_def Let_def)

lemma run_hooks_LocalAlloc:
  "run_hooks cc registered_hooks ''kernel32.LocalAlloc'' argv st =
     (Inr True,
      st\<lparr>delta_collector :=
           snd (DeltaCollectorHook_hook ''kernel32.LocalAlloc'' argv
                  (delta_collector st, drv_emu st)),
         drv_emu := execCallReturn cc
           (fst (snd (allocate_mem (allocate_heap_addr st) (drv_emu st)
                        (getStackValue (drv_emu st) 0x8))))
           (allocate_heap_addr st) (length argv),
         allocate_heap_addr :=
           allocate_heap_addr st + granted_size (getStackValue (drv_emu st) 0x8)\<rparr>)"
  by (simp add: registered_hooks_def collector_hook_result GetProcessHeapHook_hook_def
      RtlAllocateHeapHook_hook_def AllocateHeap_hook_def
      allocate_mem_def Let_def)


lemma writeMemory_fields:
  "stack_counter (writeMemory e a bs) = stack_counter e"
  "program_counter (writeMemory e a bs) = program_counter e"
  "imem_psize (writeMemory e a bs) = imem_psize e"
  "memory_maps (writeMemory e a bs) = memory_maps e"
  "viv_taint (writeMemory e a bs) = viv_taint e"
  by (simp_all add: writeMemory_def)

lemma allocate_mem_fields:
  "stack_counter (fst (snd (allocate_mem h e s))) = stack_counter e"
  "program_counter (fst (snd (allocate_mem h e s))) = program_counter e"
  "imem_psize (fst (snd (allocate_mem h e s))) = imem_psize e"
  "viv_taint (fst (snd (allocate_mem h e s))) = viv_taint e"
  by (simp_all add: allocate_mem_def Let_def writeMemory_def addMemoryMap_def)

lemma sample_cc_fields:
  "program_counter (execCallReturn sample_cc e v n) = readPointer e (stack_counter e)"
  "stack_counter (execCallReturn sample_cc e v n) = stack_counter e + 4 + 4 * int n"
  "imem_psize (execCallReturn sample_cc e v n) = imem_psize e"
  "memory_maps (execCallReturn sample_cc e v n) = memory_maps e"
  "viv_taint (execCallReturn sample_cc e v n) = viv_taint e"
  by (simp_all add: sample_cc_def)

lemma readPointer_regs:
  "readPointer (e\<lparr>program_counter := p, stack_counter := s\<rparr>) a = readPointer e a"
  by (simp add: readPointer_def)

lemma readPointer_sample_cc:
  "readPointer (execCallReturn sample_cc e v n) a = readPointer e a"
  by (simp add: sample_cc_def readPointer_def)

lemma readPointer_writeMemory_other:
  "imem_psize e = 4 \<Longrightarrow> a + 4 \<le> va \<or> va + int (length bs) \<le> a \<Longrightarrow>
     readPointer (writeMemory e va bs) a = readPointer e a"
  by (auto simp add: readPointer_def writeMemory_def upt_rec)

lemma readPointer_writeMemory_same:
  "imem_psize e = 4 \<Longrightarrow>
     readPointer (writeMemory e va [b0, b1, b2, b3]) va =
       int (unat b0) + 256 * (int (unat b1) + 256 * (int (unat b2) + 256 * int (unat b3)))"
  by (simp add: readPointer_def writeMemory_def upt_rec)

lemma readPointer_allocate_mem_other:
  "imem_psize e = 4 \<Longrightarrow> a + 4 \<le> h \<Longrightarrow>
     readPointer (fst (snd (allocate_mem h e s))) a = readPointer e a"
  by (simp add: readPointer_def allocate_mem_def Let_def writeMemory_def addMemoryMap_def
      upt_rec)


lemma runToVa_call_claimed:
  assumes "getProgramCounter (drv_emu st) \<noteq> va"
    and "stepi eng (drv_emu st) = (Inr (op, Some (callname, argv)), emu')"
    and "op_mnem op \<noteq> ''ret''"
    and "run_hooks (engine_callconv eng) hooks callname argv (st\<lparr>drv_emu := emu'\<rparr>)
           = (Inr True, st2)"
  shows "runToVa eng mon hooks va (Suc n) st = runToVa eng mon hooks va n st2"
  using assms by (simp add: posthook_def)

lemma runToVa_reached:
  "getProgramCounter (drv_emu st) = va \<Longrightarrow> runToVa eng mon hooks va (Suc n) st = (None, st)"
  by simp

lemma granted_size_16: "granted_size 16 = 16"
  by (simp add: granted_size_def round_py_def MAX_ALLOCATION_SIZE_def)

lemma alloc_emu_fields:
  "program_counter alloc_emu = 0x401010"
  "stack_counter alloc_emu = 0x1000"
  "imem_psize alloc_emu = 4"
  "memory_maps alloc_emu = []"
  "readPointer alloc_emu 0x1004 = 16"
  by (simp_all add: alloc_emu_def writeMemory_fields sample_emu_def readPointer_writeMemory_same)

text \<open>A run of two instructions: a call of \<open>msvcrt.malloc\<close>, then a call of
  \<open>kernel32.LocalAlloc\<close> with the requested size 16 at stack offset 8, up to the return
  address 0x40101A.\<close>

lemma run_malloc_then_LocalAlloc:
  "memory_maps (snd (emulate_function alloc_engine alloc_emu Map.empty 0x401010 0x40101A 3)) =
     [(0x69690000, MM_RWX, ''[heap allocation]'', 260),
      (0x69690000, MM_RWX, ''[heap allocation]'', 20)]"
proof -
  define mon where "mon = \<lparr>function_index = Map.empty, getCallers = vw_getCallers alloc_emu\<rparr>"
  define init where "init =
    \<lparr>drv_emu = alloc_emu,
     delta_collector = DeltaCollectorHook_init (make_snapshot alloc_emu),
     rtl_heap_addr = heap_base, allocate_heap_addr = heap_base,
     malloc_heap_addr = heap_base\<rparr>"
  define e1 where "e1 = (writeMemory alloc_emu 0xFFC [0x15, 0x10, 0x40, 0x00])
    \<lparr>program_counter := 0x600000, stack_counter := 0xFFC\<rparr>"
  define a1 where "a1 = fst (snd (allocate_mem heap_base e1 0x100))"
  define e2 where "e2 = execCallReturn sample_cc a1 heap_base 0"
  define st2 where "st2 = snd (run_hooks sample_cc registered_hooks ''msvcrt.malloc'' []
    (init\<lparr>drv_emu := e1\<rparr>))"
  define e3 where "e3 = (writeMemory e2 0xFFC [0x1A, 0x10, 0x40, 0x00])
    \<lparr>program_counter := 0x600010, stack_counter := 0xFFC\<rparr>"
  define a3 where "a3 = fst (snd (allocate_mem heap_base e3 16))"
  define e4 where "e4 = execCallReturn sample_cc a3 heap_base 0"
  define st4 where "st4 = snd (run_hooks sample_cc registered_hooks ''kernel32.LocalAlloc'' []
    (st2\<lparr>drv_emu := e3\<rparr>))"
  have cc: "engine_callconv alloc_engine = sample_cc"
    by (simp add: alloc_engine_def)
  have hb: "(0x2000 :: int) \<le> heap_base"
    by (simp add: heap_base_def)
  \<comment> \<open>the first instruction: the call of malloc\<close>
  have s1: "stepi alloc_engine (drv_emu init) =
      (Inr (\<lparr>op_va = 0x401010, op_size = 5, op_mnem = ''call'', op_opers = []\<rparr>,
            Some (''msvcrt.malloc'', [])), e1)"
    by (simp add: init_def e1_def alloc_engine_def alloc_emu_fields)
  have e1f: "imem_psize e1 = 4" "stack_counter e1 = 0xFFC" "memory_maps e1 = []"
    "readPointer e1 0xFFC = 0x401015" "readPointer e1 0x1004 = 16"
    by (simp_all add: e1_def writeMemory_fields alloc_emu_fields readPointer_regs
        readPointer_writeMemory_same readPointer_writeMemory_other)
  have h1: "run_hooks sample_cc registered_hooks ''msvcrt.malloc'' [] (init\<lparr>drv_emu := e1\<rparr>)
      = (Inr True, st2)"
    by (simp add: st2_def run_hooks_malloc)
  have st2f: "drv_emu st2 = e2" "allocate_heap_addr st2 = heap_base"
    by (simp_all add: st2_def run_hooks_malloc e2_def a1_def init_def)
  have a1f: "imem_psize a1 = 4" "stack_counter a1 = 0xFFC"
    "memory_maps a1 = [(heap_base, MM_RWX, ''[heap allocation]'', 260)]"
    "readPointer a1 0xFFC = 0x401015" "readPointer a1 0x1004 = 16"
    using hb
    by (simp_all add: a1_def allocate_mem_fields allocate_mem_maps e1f granted_size_256
        readPointer_allocate_mem_other)
  have e2f: "imem_psize e2 = 4" "stack_counter e2 = 0x1000" "program_counter e2 = 0x401015"
    "memory_maps e2 = [(heap_base, MM_RWX, ''[heap allocation]'', 260)]"
    "readPointer e2 0x1004 = 16"
    by (simp_all add: e2_def sample_cc_fields readPointer_sample_cc a1f)
  \<comment> \<open>the second instruction: the call of LocalAlloc\<close>
  have s2: "stepi alloc_engine (drv_emu st2) =
      (Inr (\<lparr>op_va = 0x401015, op_size = 5, op_mnem = ''call'', op_opers = []\<rparr>,
            Some (''kernel32.LocalAlloc'', [])), e3)"
    by (simp add: st2f e3_def alloc_engine_def e2f)
  have e3f: "imem_psize e3 = 4" "stack_counter e3 = 0xFFC"
    "memory_maps e3 = [(heap_base, MM_RWX, ''[heap allocation]'', 260)]"
    "readPointer e3 0xFFC = 0x40101A" "getStackValue e3 0x8 = 16"
    by (simp_all add: e3_def writeMemory_fields e2f readPointer_regs getStackValue_def
        getStackCounter_def readPointer_writeMemory_same readPointer_writeMemory_other)
  have h2: "run_hooks sample_cc registered_hooks ''kernel32.LocalAlloc'' []
      (st2\<lparr>drv_emu := e3\<rparr>) = (Inr True, st4)"
    by (simp add: st4_def run_hooks_LocalAlloc)
  have st4f: "drv_emu st4 = e4"
    by (simp add: st4_def run_hooks_LocalAlloc e4_def a3_def st2f e3f)
  have a3f: "stack_counter a3 = 0xFFC"
    "memory_maps a3 = [(heap_base, MM_RWX, ''[heap allocation]'', 260),
                       (heap_base, MM_RWX, ''[heap allocation]'', 20)]"
    "readPointer a3 0xFFC = 0x40101A"
    using hb
    by (simp_all add: a3_def allocate_mem_fields allocate_mem_maps e3f granted_size_16
        readPointer_allocate_mem_other)
  have e4f: "program_counter e4 = 0x40101A"
    "memory_maps e4 = [(heap_base, MM_RWX, ''[heap allocation]'', 260),
                       (heap_base, MM_RWX, ''[heap allocation]'', 20)]"
    by (simp_all add: e4_def sample_cc_fields a3f)
  \<comment> \<open>the run\<close>
  have r1: "runToVa alloc_engine mon registered_hooks 0x40101A (Suc (Suc (Suc 0))) init
      = runToVa alloc_engine mon registered_hooks 0x40101A (Suc (Suc 0)) st2"
  proof (rule runToVa_call_claimed [OF _ s1])
    show "getProgramCounter (drv_emu init) \<noteq> 0x40101A"
      by (simp add: init_def getProgramCounter_def alloc_emu_fields)
    show "op_mnem \<lparr>op_va = 0x401010, op_size = 5, op_mnem = ''call'', op_opers = []\<rparr>
        \<noteq> ''ret''"
      by simp
    show "run_hooks (engine_callconv alloc_engine) registered_hooks ''msvcrt.malloc'' []
        (init\<lparr>drv_emu := e1\<rparr>) = (Inr True, st2)"
      by (simp add: cc h1)
  qed
  have r2: "runToVa alloc_engine mon registered_hooks 0x40101A (Suc (Suc 0)) st2
      = runToVa alloc_engine mon registered_hooks 0x40101A (Suc 0) st4"
  proof (rule runToVa_call_claimed [OF _ s2])
    show "getProgramCounter (drv_emu st2) \<noteq> 0x40101A"
      by (simp add: st2f getProgramCounter_def e2f)
    show "op_mnem \<lparr>op_va = 0x401015, op_size = 5, op_mnem = ''call'', op_opers = []\<rparr>
        \<noteq> ''ret''"
      by simp
    show "run_hooks (engine_callconv alloc_engine) registered_hooks ''kernel32.LocalAlloc'' []
        (st2\<lparr>drv_emu := e3\<rparr>) = (Inr True, st4)"
      by (simp add: cc h2)
  qed
  have r3: "runToVa alloc_engine mon registered_hooks 0x40101A (Suc 0) st4 = (None, st4)"
    by (rule runToVa_reached) (simp add: st4f getProgramCounter_def e4f)
  have n3: "nat 3 = Suc (Suc (Suc 0))"
    by (simp add: numeral_3_eq_3)
  have "snd (runToVa alloc_engine mon registered_hooks 0x40101A (nat 3) init) = st4"
    by (simp only: n3 r1 r2 r3 snd_conv)
  then have "snd (emulate_function alloc_engine alloc_emu Map.empty 0x401010 0x40101A 3) = e4"
    by (simp add: emulate_function_result Let_def mon_def init_def st4f)
  then show ?thesis
    by (simp add: e4f heap_base_def)
qed

text \<open>
  Claim C4. The claim expects, within one run, strictly increasing base addresses and
  regions that never overlap. In a run that calls \<open>msvcrt.malloc\<close> and then
  \<open>kernel32.LocalAlloc\<close>, both allocations are mapped at 0x69690000: \<open>MallocHeap\<close> and
  \<open>AllocateHeap\<close> each keep a \<open>\_heap\_addr\<close> of their own, started at the same base. And
  on one hook, allocations of 10 and of 5000 bytes are mapped as 14 bytes at 0x69690000
  and 9100 bytes at 0x6969000A: every map is 4 bytes longer than the cursor's advance,
  and reaches into the next allocation.
\<close>

theorem allocations_of_one_run_overlap:
  "memory_maps (snd (emulate_function alloc_engine alloc_emu Map.empty 0x401010 0x40101A 3)) =
     [(0x69690000, MM_RWX, ''[heap allocation]'', 260),
      (0x69690000, MM_RWX, ''[heap allocation]'', 20)]
   \<and> memory_maps (fst (snd (allocate_mem (snd (snd (allocate_mem heap_base emu 10)))
          (fst (snd (allocate_mem heap_base emu 10))) 5000))) =
       memory_maps emu @
         [(0x69690000, MM_RWX, ''[heap allocation]'', 14),
          (0x6969000A, MM_RWX, ''[heap allocation]'', 9100)]"
  by (simp add: run_malloc_then_LocalAlloc allocate_mem_maps allocate_mem_cursor
      granted_size_10 granted_size_5000 heap_base_def)

end
